theory Spec2Isabelle
  imports Main
begin

section \<open>JavaScript values\<close>

text \<open>
  The values the adapter's inputs are made of. An array and an object carry the
  identity of their allocation (a natural number): JavaScript compares them with
  \<^verbatim>\<open>===\<close> by identity, not by content. \<open>Num\<close> holds the integer-valued
  numbers. \<open>DsInt v\<close> is the object that the store client's \<^verbatim>\<open>int(v)\<close> returns,
  the long-integer wrapper of \<open>v\<close>; the store client is an external collaborator.
  A string is a list of code units below 256.
\<close>

datatype jsval =
    Undefined
  | Null
  | Bool bool
  | Num int
  | Str string
  | Arr nat "jsval list"
  | Obj nat "(string \<times> jsval) list"
  | DsInt string

text \<open>\<^verbatim>\<open>typeof v\<close>\<close>

fun js_typeof :: "jsval \<Rightarrow> string" where
  "js_typeof Undefined = ''undefined''"
| "js_typeof Null = ''object''"
| "js_typeof (Bool b) = ''boolean''"
| "js_typeof (Num n) = ''number''"
| "js_typeof (Str s) = ''string''"
| "js_typeof (Arr r xs) = ''object''"
| "js_typeof (Obj r ps) = ''object''"
| "js_typeof (DsInt v) = ''object''"

text \<open>The value of \<open>v\<close> as a condition (\<^verbatim>\<open>if (v)\<close>, \<^verbatim>\<open>a && v\<close>).\<close>

fun truthy :: "jsval \<Rightarrow> bool" where
  "truthy Undefined = False"
| "truthy Null = False"
| "truthy (Bool b) = b"
| "truthy (Num n) = (n \<noteq> 0)"
| "truthy (Str s) = (s \<noteq> [])"
| "truthy (Arr r xs) = True"
| "truthy (Obj r ps) = True"
| "truthy (DsInt v) = True"

text \<open>\<^verbatim>\<open>a === b\<close>: by value on primitives, by identity on arrays and objects.
  Each call of the store client's \<^verbatim>\<open>int\<close> allocates an object of its own, and
  the adapter compares none of them: two values \<open>DsInt\<close> are taken to be two
  objects.\<close>

fun strict_eq :: "jsval \<Rightarrow> jsval \<Rightarrow> bool" where
  "strict_eq Undefined Undefined = True"
| "strict_eq Null Null = True"
| "strict_eq (Bool a) (Bool b) = (a = b)"
| "strict_eq (Num a) (Num b) = (a = b)"
| "strict_eq (Str a) (Str b) = (a = b)"
| "strict_eq (Arr r xs) (Arr r' ys) = (r = r')"
| "strict_eq (Obj r ps) (Obj r' qs) = (r = r')"
| "strict_eq a b = False"

text \<open>\<^verbatim>\<open>Array.isArray(v)\<close>\<close>

fun isArray :: "jsval \<Rightarrow> bool" where
  "isArray (Arr r xs) = True"
| "isArray v = False"

section \<open>The store client's configuration: \<^verbatim>\<open>resolveConfig\<close>\<close>

text \<open>
  \<^verbatim>\<open>options.model\<close>, the argument of \<^verbatim>\<open>resolveConfig\<close>. A property that is absent
  reads as \<open>Undefined\<close>. \<open>credentials\<close> is an object or absent (\<open>None\<close>), as the
  function's doc comment types it: "credentials object containing client_email and
  private_key properties".
\<close>

record credentials_obj =
  client_email :: jsval
  private_key :: jsval

record model_options =
  projectId :: jsval
  keyFilename :: jsval
  credentials :: "credentials_obj option"

text \<open>The two variables of \<^verbatim>\<open>process.env\<close> that are read; a variable of the
  environment is a string, or is not set.\<close>

record env =
  GCLOUD_PROJECT :: "string option"
  GOOGLE_APPLICATION_CREDENTIALS :: "string option"

fun env_value :: "string option \<Rightarrow> jsval" where
  "env_value None = Undefined"
| "env_value (Some s) = Str s"

text \<open>The object \<^verbatim>\<open>config\<close> that \<^verbatim>\<open>resolveConfig\<close> builds: a property is
  \<open>None\<close> until it is assigned. The function returns it, or \<^verbatim>\<open>false\<close>
  (\<open>NoConfig\<close>).\<close>

record store_config =
  cfg_projectId :: "jsval option"
  cfg_keyFilename :: "jsval option"
  cfg_credentials :: "credentials_obj option"

datatype config_result = NoConfig | Config store_config

definition empty_config :: store_config where
  "empty_config = \<lparr>cfg_projectId = None, cfg_keyFilename = None, cfg_credentials = None\<rparr>"

text \<open>\<^verbatim>\<open>typeof options.credentials != "undefined" &&
  typeof options.credentials.client_email != "undefined" &&
  typeof options.credentials.private_key != "undefined"\<close>\<close>

definition valid_credentials :: "credentials_obj option \<Rightarrow> bool" where
  "valid_credentials c =
     (case c of
        None \<Rightarrow> False
      | Some cr \<Rightarrow> js_typeof (client_email cr) \<noteq> ''undefined'' \<and>
                  js_typeof (private_key cr) \<noteq> ''undefined'')"

text \<open>
  \<^verbatim>\<open>resolveConfig(options)\<close> of the first revision (index.js, lines 379 to 425).
  Inside, \<open>Inl r\<close> is a \<^verbatim>\<open>return r\<close> that has been executed and \<open>Inr config\<close>
  the local object \<^verbatim>\<open>config\<close> of a run that goes on. The statement
  \<^verbatim>\<open>return false\<close> of line 419 follows the test of the credentials, in the
  branch where no key file was found, whatever the test gave.
\<close>

definition resolveConfig :: "model_options \<Rightarrow> env \<Rightarrow> config_result" where
  "resolveConfig options e =
    (case (if js_typeof (projectId options) \<noteq> ''undefined'' \<and> truthy (projectId options)
           then Inr (empty_config\<lparr>cfg_projectId := Some (projectId options)\<rparr>)
           else if truthy (env_value (GCLOUD_PROJECT e))
                then Inr (empty_config\<lparr>cfg_projectId := Some (env_value (GCLOUD_PROJECT e))\<rparr>)
                else Inl NoConfig) of
       Inl returned \<Rightarrow> returned
     | Inr config \<Rightarrow>
        (case (if js_typeof (keyFilename options) \<noteq> ''undefined'' \<and> truthy (keyFilename options)
               then Inr (config\<lparr>cfg_keyFilename := Some (keyFilename options)\<rparr>)
               else if truthy (env_value (GOOGLE_APPLICATION_CREDENTIALS e))
                    then Inr (config\<lparr>cfg_keyFilename :=
                                Some (env_value (GOOGLE_APPLICATION_CREDENTIALS e))\<rparr>)
                    else (case (if valid_credentials (credentials options)
                                then Inr (config\<lparr>cfg_credentials := credentials options\<rparr>)
                                else Inl NoConfig) of
                            Inl returned \<Rightarrow> Inl returned
                          | Inr config' \<Rightarrow> Inl NoConfig)) of
           Inl returned \<Rightarrow> returned
         | Inr config' \<Rightarrow> Config config'))"

text \<open>\<^verbatim>\<open>resolveDatastoreConfig(options)\<close> of the last revision (index.js, lines 1108
  to 1154): the same statements under a new name. (The second revision, lines 543
  to 582, holds an earlier draft of the function, which no revision after it
  keeps.)\<close>

definition resolveDatastoreConfig :: "model_options \<Rightarrow> env \<Rightarrow> config_result" where
  "resolveDatastoreConfig options e =
    (case (if js_typeof (projectId options) \<noteq> ''undefined'' \<and> truthy (projectId options)
           then Inr (empty_config\<lparr>cfg_projectId := Some (projectId options)\<rparr>)
           else if truthy (env_value (GCLOUD_PROJECT e))
                then Inr (empty_config\<lparr>cfg_projectId := Some (env_value (GCLOUD_PROJECT e))\<rparr>)
                else Inl NoConfig) of
       Inl returned \<Rightarrow> returned
     | Inr config \<Rightarrow>
        (case (if js_typeof (keyFilename options) \<noteq> ''undefined'' \<and> truthy (keyFilename options)
               then Inr (config\<lparr>cfg_keyFilename := Some (keyFilename options)\<rparr>)
               else if truthy (env_value (GOOGLE_APPLICATION_CREDENTIALS e))
                    then Inr (config\<lparr>cfg_keyFilename :=
                                Some (env_value (GOOGLE_APPLICATION_CREDENTIALS e))\<rparr>)
                    else (case (if valid_credentials (credentials options)
                                then Inr (config\<lparr>cfg_credentials := credentials options\<rparr>)
                                else Inl NoConfig) of
                            Inl returned \<Rightarrow> Inl returned
                          | Inr config' \<Rightarrow> Inl NoConfig)) of
           Inl returned \<Rightarrow> returned
         | Inr config' \<Rightarrow> Config config'))"

section \<open>The adapter\<close>

text \<open>
  The options of the factory \<^verbatim>\<open>datastoreAdapter(options)\<close>; the factory tests
  \<^verbatim>\<open>typeof options != "undefined"\<close> before every read, so it takes an optional
  record. \<open>model\<close> is an object or absent; an absent property of the others reads
  as \<open>Undefined\<close>.
\<close>

record options =
  model :: "model_options option"
  o_defaultKind :: jsval
  o_allowKindOverwrite :: jsval
  o_defaultNamespace :: jsval
  o_allowNamespaceOverwrite :: jsval

text \<open>The handle that \<^verbatim>\<open>Datastore(config)\<close> or \<^verbatim>\<open>Datastore()\<close> returns.\<close>

datatype datastore = Datastore "store_config option"

text \<open>The object \<^verbatim>\<open>adapter\<close> of the factory (index.js, lines 36 to 70), the state
  that every function of the adapter reads. \<open>None\<close> is \<^verbatim>\<open>null\<close>.\<close>

record adapter =
  config :: "config_result option"
  datastore :: "datastore option"
  defaultKind :: jsval
  allowKindOverwrite :: bool
  defaultNamespace :: jsval
  allowNamespaceOverwrite :: bool
  app :: jsval
  path :: jsval

text \<open>\<^verbatim>\<open>v.length\<close> of an array or a string\<close>

fun js_length :: "jsval \<Rightarrow> jsval" where
  "js_length (Arr r xs) = Num (int (length xs))"
| "js_length (Str s) = Num (int (length s))"
| "js_length v = Undefined"

text \<open>\<^verbatim>\<open>isValidKind(kind)\<close> (lines 304 to 306), read as a condition.\<close>

definition isValidKind :: "jsval \<Rightarrow> bool" where
  "isValidKind kind' = (js_typeof kind' = ''string'' \<or> (isArray kind' \<and> truthy (js_length kind')))"

definition initial_adapter :: adapter where
  "initial_adapter =
     \<lparr>config = None, datastore = None, defaultKind = Bool False, allowKindOverwrite = False,
      defaultNamespace = Bool False, allowNamespaceOverwrite = False, app = Null, path = Str []\<rparr>"

text \<open>The body of the factory (lines 72 to 121), statement by statement.\<close>

definition datastoreAdapter :: "options option \<Rightarrow> env \<Rightarrow> adapter" where
  "datastoreAdapter opts e =
    (let a0 = initial_adapter;
         a1 = (case opts of
                 None \<Rightarrow> a0\<lparr>config := Some NoConfig\<rparr>
               | Some os \<Rightarrow>
                  (case model os of
                     None \<Rightarrow> a0\<lparr>config := Some NoConfig\<rparr>
                   | Some m \<Rightarrow> a0\<lparr>config := Some (resolveConfig m e)\<rparr>));
         a2 = (case config a1 of
                 Some (Config c) \<Rightarrow> a1\<lparr>datastore := Some (Datastore (Some c))\<rparr>
               | _ \<Rightarrow> a1\<lparr>datastore := Some (Datastore None)\<rparr>);
         a3 = (case opts of
                 None \<Rightarrow> a2
               | Some os \<Rightarrow>
                   if isValidKind (o_defaultKind os)
                   then a2\<lparr>defaultKind := o_defaultKind os\<rparr> else a2);
         a4 = (case opts of
                 None \<Rightarrow> a3
               | Some os \<Rightarrow>
                   if js_typeof (o_allowKindOverwrite os) \<noteq> ''undefined'' \<and>
                      truthy (o_allowKindOverwrite os)
                   then a3\<lparr>allowKindOverwrite := True\<rparr> else a3);
         a5 = (case opts of
                 None \<Rightarrow> a4
               | Some os \<Rightarrow>
                   if js_typeof (o_defaultNamespace os) = ''string''
                   then a4\<lparr>defaultNamespace := o_defaultNamespace os\<rparr> else a4);
         a6 = (case opts of
                 None \<Rightarrow> a5
               | Some os \<Rightarrow>
                   if js_typeof (o_allowNamespaceOverwrite os) \<noteq> ''undefined'' \<and>
                      truthy (o_allowNamespaceOverwrite os)
                   then a5\<lparr>allowNamespaceOverwrite := True\<rparr> else a5)
     in a6)"

text \<open>\<^verbatim>\<open>setup(app, path)\<close> (lines 224 to 227; the name is a keyword here), the one function that assigns to
  the adapter after the factory has returned.\<close>

definition adapter_setup :: "jsval \<Rightarrow> jsval \<Rightarrow> adapter \<Rightarrow> adapter" where
  "adapter_setup app' path' a = a\<lparr>app := app', path := path'\<rparr>"

subsection \<open>Request parameters and the key\<close>

text \<open>
  The \<^verbatim>\<open>params\<close> of a call: an object (the doc comments type it so, and the
  hosting framework passes one). \<open>kind\<close> and \<open>namespace\<close> are any value,
  \<open>Undefined\<close> when absent, and so is \<open>query\<close>.
\<close>

record params =
  kind :: jsval
  namespace :: jsval
  query :: jsval

text \<open>\<^verbatim>\<open>v != undefined\<close>: false of \<^verbatim>\<open>undefined\<close> and of \<^verbatim>\<open>null\<close> only.\<close>

fun loose_neq_undefined :: "jsval \<Rightarrow> bool" where
  "loose_neq_undefined Undefined = False"
| "loose_neq_undefined Null = False"
| "loose_neq_undefined v = True"

text \<open>
  The functions below read the adapter and are written with the adapter passed
  through: each returns its value and the adapter it leaves behind.

  \<^verbatim>\<open>resolveKind(params)\<close> (lines 269 to 279). The source compares the string
  \<^verbatim>\<open>typeof params.kind\<close> with the value \<^verbatim>\<open>undefined\<close>.
\<close>

definition resolveKind :: "params \<Rightarrow> adapter \<Rightarrow> jsval \<times> adapter" where
  "resolveKind ps a =
     (if allowKindOverwrite a \<and>
         loose_neq_undefined (Str (js_typeof (kind ps))) \<and> isValidKind (kind ps)
      then (kind ps, a)
      else (defaultKind a, a))"

text \<open>\<^verbatim>\<open>resolveNamespace(params)\<close> (lines 287 to 297)\<close>

definition resolveNamespace :: "params \<Rightarrow> adapter \<Rightarrow> jsval \<times> adapter" where
  "resolveNamespace ps a =
     (if allowNamespaceOverwrite a \<and>
         loose_neq_undefined (Str (js_typeof (namespace ps))) \<and>
         js_typeof (namespace ps) = ''string''
      then (namespace ps, a)
      else (defaultNamespace a, a))"

text \<open>\<^verbatim>\<open>[].concat(v1, v2, ...)\<close>: the elements of an argument that is an array,
  and an argument that is not an array itself, in the order of the arguments.\<close>

fun concat_args :: "jsval list \<Rightarrow> jsval list" where
  "concat_args [] = []"
| "concat_args (Arr r xs # vs) = xs @ concat_args vs"
| "concat_args (v # vs) = v # concat_args vs"

text \<open>What \<^verbatim>\<open>resolvePreKey\<close> returns: the array \<^verbatim>\<open>path\<close>, or the object
  \<^verbatim>\<open>{namespace: namespace, path: path}\<close>.\<close>

datatype prekey = PathOnly "jsval list" | NamespacePath jsval "jsval list"

text \<open>\<^verbatim>\<open>resolvePreKey(id, kind, params)\<close> (lines 245 to 261)\<close>

definition resolvePreKey :: "jsval \<Rightarrow> jsval \<Rightarrow> params \<Rightarrow> adapter \<Rightarrow> prekey \<times> adapter" where
  "resolvePreKey id' kind' ps a =
     (let (namespace', a1) = resolveNamespace ps a;
          path' = concat_args [kind', id']
      in if truthy namespace' then (NamespacePath namespace' path', a1)
         else (PathOnly path', a1))"

subsection \<open>The data of an error\<close>

text \<open>What a statement raises. The one error that the modelled statements can
  raise is a \<^verbatim>\<open>TypeError\<close> (a property read of \<^verbatim>\<open>null\<close>, a call of a value that
  is not a function).\<close>

datatype js_error = TypeError

text \<open>The object \<^verbatim>\<open>errorData\<close>: \<^verbatim>\<open>id\<close> is always assigned, \<^verbatim>\<open>kind\<close> and
  \<^verbatim>\<open>query\<close> are \<open>None\<close> until they are.\<close>

record error_data =
  err_id :: jsval
  err_kind :: "jsval option"
  err_query :: "jsval option"

text \<open>
  \<^verbatim>\<open>q.hasOwnProperty()\<close>. The method is looked up on \<open>q\<close> itself. The read raises
  on \<^verbatim>\<open>undefined\<close> and on \<^verbatim>\<open>null\<close>. On an object, an own property named
  \<^verbatim>\<open>hasOwnProperty\<close> hides the method that the object inherits; no value here is
  a function, so the call of that property raises. In every other case the
  inherited method runs: the call passes no argument, the parameter is
  \<^verbatim>\<open>undefined\<close>, and the property asked for is the one named by the string
  "undefined", which an array, a string, a number, a boolean and the store's
  integer do not have. An object \<open>Obj\<close> inherits from \<^verbatim>\<open>Object.prototype\<close>, as an
  object literal and a parsed query string do.
\<close>

fun hasOwnProperty_no_argument :: "jsval \<Rightarrow> js_error + bool" where
  "hasOwnProperty_no_argument Undefined = Inl TypeError"
| "hasOwnProperty_no_argument Null = Inl TypeError"
| "hasOwnProperty_no_argument (Obj r props) =
     (if map_of props ''hasOwnProperty'' \<noteq> None then Inl TypeError
      else Inr (map_of props ''undefined'' \<noteq> None))"
| "hasOwnProperty_no_argument v = Inr False"

text \<open>\<^verbatim>\<open>resolveErrorData(id, kind, params)\<close> (lines 315 to 334). \<^verbatim>\<open>params\<close> is an
  object here, so the first test of line 328, \<^verbatim>\<open>typeof params != "undefined"\<close>,
  holds. The value is \<open>Inl\<close> of the error when the call of line 328 raises, and
  \<open>Inr\<close> of the object that is returned when it does not.\<close>

definition resolveErrorData ::
  "jsval \<Rightarrow> jsval \<Rightarrow> params \<Rightarrow> adapter \<Rightarrow> (js_error + error_data) \<times> adapter" where
  "resolveErrorData id' kind' ps a =
     (let errorData = \<lparr>err_id = id', err_kind = None, err_query = None\<rparr>;
          errorData = (if \<not> strict_eq kind' (defaultKind a)
                       then errorData\<lparr>err_kind := Some kind'\<rparr> else errorData)
      in if js_typeof (query ps) \<noteq> ''undefined''
         then (case hasOwnProperty_no_argument (query ps) of
                 Inl thrown \<Rightarrow> (Inl thrown, a)
               | Inr found \<Rightarrow>
                   (Inr (if found then errorData\<lparr>err_query := Some (query ps)\<rparr> else errorData),
                    a))
         else (Inr errorData, a))"

subsection \<open>The identifier\<close>

text \<open>
  \<^verbatim>\<open>isNaN(id)\<close> of a string: the string is converted to a number, and the result is
  \<^verbatim>\<open>NaN\<close> exactly when the string, white space at both ends apart, is neither empty
  nor a numeric literal of the language's grammar \<^verbatim>\<open>StringNumericLiteral\<close> (a
  decimal literal with an optional sign, fraction and exponent, \<^verbatim>\<open>Infinity\<close>, or a
  binary, octal or hexadecimal integer). The functions below recognise that grammar.
\<close>

definition is_digit :: "char \<Rightarrow> bool" where
  "is_digit c = (c \<in> set ''0123456789'')"

definition is_hex_digit :: "char \<Rightarrow> bool" where
  "is_hex_digit c = (c \<in> set ''0123456789abcdefABCDEF'')"

definition is_octal_digit :: "char \<Rightarrow> bool" where
  "is_octal_digit c = (c \<in> set ''01234567'')"

definition is_binary_digit :: "char \<Rightarrow> bool" where
  "is_binary_digit c = (c \<in> set ''01'')"

text \<open>White space and line terminators among the code units below 256: TAB, LF, VT,
  FF, CR, SP and NBSP.\<close>

definition is_white_space :: "char \<Rightarrow> bool" where
  "is_white_space c = (c \<in> set [CHR 0x09, CHR 0x0A, CHR 0x0B, CHR 0x0C, CHR 0x0D, CHR 0x20, CHR 0xA0])"

definition str_trim :: "string \<Rightarrow> string" where
  "str_trim s = rev (dropWhile is_white_space (rev (dropWhile is_white_space s)))"

definition DecimalDigits :: "string \<Rightarrow> bool" where
  "DecimalDigits s = (s \<noteq> [] \<and> list_all is_digit s)"

definition SignedInteger :: "string \<Rightarrow> bool" where
  "SignedInteger s =
     (case s of
        [] \<Rightarrow> False
      | c # r \<Rightarrow> if c = CHR ''+'' \<or> c = CHR ''-'' then DecimalDigits r else DecimalDigits s)"

definition ExponentPart_opt :: "string \<Rightarrow> bool" where
  "ExponentPart_opt s =
     (case s of
        [] \<Rightarrow> True
      | c # r \<Rightarrow> (c = CHR ''e'' \<or> c = CHR ''E'') \<and> SignedInteger r)"

definition StrUnsignedDecimalLiteral :: "string \<Rightarrow> bool" where
  "StrUnsignedDecimalLiteral s =
     (s = ''Infinity'' \<or>
      (let ip = takeWhile is_digit s; r = dropWhile is_digit s
       in case r of
            [] \<Rightarrow> ip \<noteq> []
          | c # r' \<Rightarrow>
              if c = CHR ''.''
              then (let fp = takeWhile is_digit r'; r'' = dropWhile is_digit r'
                    in (ip \<noteq> [] \<or> fp \<noteq> []) \<and> ExponentPart_opt r'')
              else ip \<noteq> [] \<and> ExponentPart_opt r))"

definition StrDecimalLiteral :: "string \<Rightarrow> bool" where
  "StrDecimalLiteral s =
     (case s of
        [] \<Rightarrow> False
      | c # r \<Rightarrow>
          if c = CHR ''+'' \<or> c = CHR ''-'' then StrUnsignedDecimalLiteral r
          else StrUnsignedDecimalLiteral s)"

definition NonDecimalIntegerLiteral :: "string \<Rightarrow> bool" where
  "NonDecimalIntegerLiteral s =
     (case s of
        z # x # ds \<Rightarrow>
          z = CHR ''0'' \<and> ds \<noteq> [] \<and>
          ((x \<in> set ''xX'' \<and> list_all is_hex_digit ds) \<or>
           (x \<in> set ''oO'' \<and> list_all is_octal_digit ds) \<or>
           (x \<in> set ''bB'' \<and> list_all is_binary_digit ds))
      | _ \<Rightarrow> False)"

definition StringNumericLiteral :: "string \<Rightarrow> bool" where
  "StringNumericLiteral s =
     (let t = str_trim s in t = [] \<or> StrDecimalLiteral t \<or> NonDecimalIntegerLiteral t)"

definition isNaN :: "string \<Rightarrow> bool" where
  "isNaN s = (\<not> StringNumericLiteral s)"

text \<open>\<^verbatim>\<open>resolveId(id)\<close> (lines 341 to 352). The identifier is a string, as the doc
  comment types it. The value returned is the object of the store client's
  \<^verbatim>\<open>int(id)\<close>, or the string of the error.\<close>

definition resolveId :: "string \<Rightarrow> jsval" where
  "resolveId id' =
     (let validNumber = \<not> isNaN id'
      in if validNumber then DsInt id'
         else Str (''Invalid id format, should be a number e.g. 5634472569470976, provided: '' @ id'))"

subsection \<open>Retrieval of one entity: \<^verbatim>\<open>get\<close>\<close>

text \<open>The three errors of the error library that \<^verbatim>\<open>get\<close> constructs, each from a
  message and the data of the error.\<close>

datatype error_class = BadRequest | NotFound | GeneralError

datatype service_error = ServiceError error_class jsval error_data

text \<open>The promise \<^verbatim>\<open>deferred\<close>: pending (\<open>None\<close>) or settled. It settles once:
  \<^verbatim>\<open>resolve\<close> and \<^verbatim>\<open>reject\<close> on a settled promise change nothing. A promise
  whose executor raises is rejected with what was raised (\<open>RejectedThrown\<close>),
  unless it is settled already.\<close>

datatype settled = Resolved "jsval list" | Rejected service_error | RejectedThrown js_error

type_synonym deferred = "settled option"

definition promise_resolve :: "deferred \<Rightarrow> jsval list \<Rightarrow> deferred" where
  "promise_resolve d v = (case d of None \<Rightarrow> Some (Resolved v) | Some s \<Rightarrow> Some s)"

definition promise_reject :: "deferred \<Rightarrow> service_error \<Rightarrow> deferred" where
  "promise_reject d err = (case d of None \<Rightarrow> Some (Rejected err) | Some s \<Rightarrow> Some s)"

definition executor_raised :: "deferred \<Rightarrow> js_error \<Rightarrow> deferred" where
  "executor_raised d thrown = (case d of None \<Rightarrow> Some (RejectedThrown thrown) | Some s \<Rightarrow> Some s)"

text \<open>The store client: \<^verbatim>\<open>datastore.key(descriptor)\<close> builds the key, and
  \<^verbatim>\<open>datastore.get(key)\<close> returns a promise that resolves with a collection,
  rejects with an error, or stays pending.\<close>

datatype dskey = DsKey prekey

datatype store_reply = StoreResolved "jsval list" | StoreRejected jsval | StorePending

text \<open>A store client that gives the same reply for every key.\<close>

definition store_always :: "store_reply \<Rightarrow> dskey \<Rightarrow> store_reply" where
  "store_always reply key = reply"

text \<open>
  \<^verbatim>\<open>get(id, params)\<close> (lines 140 to 192), with the store client's \<^verbatim>\<open>get\<close> as
  the parameter \<open>ds_get\<close>. The value is the state of the promise once the store
  client's promise has settled and the handlers have run.

  The executor (lines 145 to 189): when \<^verbatim>\<open>resolveErrorData\<close> raises at line 155,
  the executor ends there and the promise is rejected with what was raised. After
  the rejection of line 157 the executor goes on (there is no \<^verbatim>\<open>return\<close>): the
  key is built and the store is asked all the same.

  The handlers: \<^verbatim>\<open>.catch\<close> is chained to \<^verbatim>\<open>.then\<close>, so its handler
  (\<open>on_catch\<close>, lines 180 to 188) runs when the store rejects and also when the
  handler of \<^verbatim>\<open>.then\<close> raises, which it does when \<^verbatim>\<open>resolveErrorData\<close> raises at
  line 175. When \<^verbatim>\<open>resolveErrorData\<close> raises inside the handler of \<^verbatim>\<open>.catch\<close>
  (line 185), nothing is left to call \<^verbatim>\<open>reject\<close>, and the promise stays as it
  is.
\<close>

definition get :: "(dskey \<Rightarrow> store_reply) \<Rightarrow> string \<Rightarrow> params \<Rightarrow> adapter \<Rightarrow> deferred \<times> adapter" where
  "get ds_get id' ps a =
     (let deferred = None;
          processedId = resolveId id'
      in case (if js_typeof processedId = ''string''
               then (let (k, a) = resolveKind ps a;
                         (r, a) = resolveErrorData (Str id') k ps a
                     in case r of
                          Inl thrown \<Rightarrow> (Inl thrown, a)
                        | Inr errorData \<Rightarrow>
                            (let serviceError = ServiceError BadRequest processedId errorData
                             in (Inr (promise_reject deferred serviceError), a)))
               else (Inr deferred, a)) of
           (Inl thrown, a) \<Rightarrow> (executor_raised deferred thrown, a)
         | (Inr deferred, a) \<Rightarrow>
            (let (kind', a) = resolveKind ps a;
                 (preKey, a) = resolvePreKey processedId kind' ps a;
                 key = DsKey preKey;
                 on_catch = (\<lambda>a. let (r, a) = resolveErrorData (Str id') kind' ps a
                                  in case r of
                                       Inl thrown \<Rightarrow> (deferred, a)
                                     | Inr errorData \<Rightarrow>
                                         (let serviceError =
                                                ServiceError GeneralError
                                                  (Str ''Datastore returned error while requesting entity.'')
                                                  errorData
                                          in (promise_reject deferred serviceError, a)))
             in case ds_get key of
                  StoreResolved result \<Rightarrow>
                    if length result > 1 \<or>
                       (length result = 1 \<and> js_typeof (result ! 0) \<noteq> ''undefined'')
                    then (promise_resolve deferred result, a)
                    else (let (r, a) = resolveErrorData (Str id') kind' ps a
                          in case r of
                               Inl thrown \<Rightarrow> on_catch a
                             | Inr errorData \<Rightarrow>
                                 (let serviceError =
                                        ServiceError NotFound
                                          (Str ''Requested entity does not exist.'') errorData
                                  in (promise_reject deferred serviceError, a)))
                | StoreRejected error \<Rightarrow> on_catch a
                | StorePending \<Rightarrow> (deferred, a)))"

subsection \<open>The invariant of the adapter\<close>

text \<open>What the factory establishes and no function changes: the default kind is
  \<^verbatim>\<open>false\<close> or a kind that \<^verbatim>\<open>isValidKind\<close> accepts, and the default namespace is
  \<^verbatim>\<open>false\<close> or a string.\<close>

definition adapter_invariant :: "adapter \<Rightarrow> bool" where
  "adapter_invariant a =
     ((defaultKind a = Bool False \<or> isValidKind (defaultKind a)) \<and>
      (defaultNamespace a = Bool False \<or> js_typeof (defaultNamespace a) = ''string''))"

section \<open>Properties of \<^verbatim>\<open>resolveConfig\<close>\<close>

lemma resolveConfig_cases:
  "resolveConfig options e = NoConfig \<or>
   (\<exists>p k. resolveConfig options e =
      Config \<lparr>cfg_projectId = Some p, cfg_keyFilename = Some k, cfg_credentials = None\<rparr>)"
  by (simp add: resolveConfig_def empty_config_def)

lemma resolveDatastoreConfig_eq: "resolveDatastoreConfig options e = resolveConfig options e"
  by (simp add: resolveConfig_def resolveDatastoreConfig_def)

lemma resolveConfig_Config:
  assumes "resolveConfig options e = Config c"
  shows "cfg_projectId c \<noteq> None \<and> cfg_keyFilename c \<noteq> None \<and> cfg_credentials c = None"
  using assms resolveConfig_cases [of options e] by auto

lemma datastoreAdapter_None:
  "datastoreAdapter None e =
     initial_adapter\<lparr>config := Some NoConfig, datastore := Some (Datastore None)\<rparr>"
  by (simp add: datastoreAdapter_def Let_def)

lemma datastoreAdapter_config:
  "config (datastoreAdapter opts e) =
     Some (case opts of None \<Rightarrow> NoConfig
           | Some os \<Rightarrow> (case model os of None \<Rightarrow> NoConfig | Some m \<Rightarrow> resolveConfig m e))"
proof (cases opts)
  case None
  then show ?thesis by (simp add: datastoreAdapter_None initial_adapter_def)
next
  case os: (Some os)
  show ?thesis
  proof (cases "model os")
    case None
    with os show ?thesis by (simp add: datastoreAdapter_def Let_def)
  next
    case (Some m)
    with os show ?thesis
      by (cases "resolveConfig m e") (simp_all add: datastoreAdapter_def Let_def)
  qed
qed

lemma datastoreAdapter_datastore:
  "datastore (datastoreAdapter opts e) =
     Some (Datastore (case config (datastoreAdapter opts e) of
                        Some (Config c) \<Rightarrow> Some c | _ \<Rightarrow> None))"
proof (cases opts)
  case None
  then show ?thesis by (simp add: datastoreAdapter_None initial_adapter_def)
next
  case os: (Some os)
  show ?thesis
  proof (cases "model os")
    case None
    with os show ?thesis by (simp add: datastoreAdapter_def Let_def)
  next
    case (Some m)
    with os show ?thesis
      by (cases "resolveConfig m e") (simp_all add: datastoreAdapter_def Let_def)
  qed
qed

lemma datastoreAdapter_no_credentials:
  assumes "datastore (datastoreAdapter opts e) = Some (Datastore (Some c))"
  shows "cfg_credentials c = None"
proof -
  from assms have "config (datastoreAdapter opts e) = Some (Config c)"
    by (simp add: datastoreAdapter_datastore split: option.splits config_result.splits)
  then obtain m where "resolveConfig m e = Config c"
    by (auto simp: datastoreAdapter_config split: option.splits)
  then show ?thesis
    by (simp add: resolveConfig_Config)
qed

text \<open>
  C1. The claim: with a project id that is present and truthy, no key file in the
  options, no \<^verbatim>\<open>GOOGLE_APPLICATION_CREDENTIALS\<close> in the environment and credentials
  that carry both sub-fields, \<^verbatim>\<open>resolveConfig\<close> returns the configuration
  \<^verbatim>\<open>{projectId, credentials}\<close>. The code does not: on every such input it assigns
  the credentials to \<^verbatim>\<open>config\<close> and then returns \<^verbatim>\<open>false\<close> (line 419).
\<close>

theorem resolveConfig_explicit_credentials_lost:
  assumes "projectId options \<noteq> Undefined" and "truthy (projectId options)"
    and "keyFilename options = Undefined"
    and "GOOGLE_APPLICATION_CREDENTIALS e = None"
    and "credentials options = Some cr"
    and "client_email cr \<noteq> Undefined" and "private_key cr \<noteq> Undefined"
  shows "resolveConfig options e = NoConfig"
  using assms by (simp add: resolveConfig_def)

theorem resolveConfig_explicit_credentials_lost_witness:
  "Str ''my-project'' \<noteq> Undefined \<and> truthy (Str ''my-project'') \<and>
   Str ''svc@my-project.example'' \<noteq> Undefined \<and> Str ''PRIVATE KEY'' \<noteq> Undefined \<and>
   resolveConfig
     \<lparr>projectId = Str ''my-project'', keyFilename = Undefined,
      credentials = Some \<lparr>client_email = Str ''svc@my-project.example'',
                           private_key = Str ''PRIVATE KEY''\<rparr>\<rparr>
     \<lparr>GCLOUD_PROJECT = None, GOOGLE_APPLICATION_CREDENTIALS = None\<rparr> = NoConfig"
  using resolveConfig_explicit_credentials_lost
    [of "\<lparr>projectId = Str ''my-project'', keyFilename = Undefined,
          credentials = Some \<lparr>client_email = Str ''svc@my-project.example'',
                               private_key = Str ''PRIVATE KEY''\<rparr>\<rparr>"
        "\<lparr>GCLOUD_PROJECT = None, GOOGLE_APPLICATION_CREDENTIALS = None\<rparr>"
        "\<lparr>client_email = Str ''svc@my-project.example'', private_key = Str ''PRIVATE KEY''\<rparr>"]
  by simp

text \<open>
  C7. For every options object and every environment, the result of
  \<^verbatim>\<open>resolveConfig\<close> is \<^verbatim>\<open>false\<close> (no configuration) or a configuration that holds
  a project id and exactly one of a key file name and credentials; it is never a
  partly filled object.
\<close>

theorem resolveConfig_complete:
  "resolveConfig options e = NoConfig \<or>
   (\<exists>c. resolveConfig options e = Config c \<and> cfg_projectId c \<noteq> None \<and>
        (cfg_keyFilename c = None) \<noteq> (cfg_credentials c = None))"
  using resolveConfig_cases [of options e] by auto

text \<open>
  C9. A result of \<^verbatim>\<open>resolveConfig\<close> that is a configuration never holds
  credentials: it holds a project id and a key file name and nothing else. The
  same is true of \<^verbatim>\<open>resolveDatastoreConfig\<close> of the last revision, and the store
  client that the factory builds is never given credentials.
\<close>

theorem resolveConfig_never_credentials:
  "(resolveConfig options e = Config c \<longrightarrow>
      cfg_projectId c \<noteq> None \<and> cfg_keyFilename c \<noteq> None \<and> cfg_credentials c = None) \<and>
   (resolveDatastoreConfig options e = Config c' \<longrightarrow>
      cfg_projectId c' \<noteq> None \<and> cfg_keyFilename c' \<noteq> None \<and> cfg_credentials c' = None) \<and>
   (datastore (datastoreAdapter opts e') = Some (Datastore (Some c'')) \<longrightarrow>
      cfg_credentials c'' = None)"
  using resolveConfig_Config [of options e c] resolveConfig_Config [of options e c']
    datastoreAdapter_no_credentials [of opts e' c'']
  by (simp add: resolveDatastoreConfig_eq)

theorem resolveConfig_never_credentials_witness:
  "resolveConfig
     \<lparr>projectId = Str ''my-project'', keyFilename = Str ''key.json'',
      credentials = Some \<lparr>client_email = Str ''svc@my-project.example'',
                           private_key = Str ''PRIVATE KEY''\<rparr>\<rparr>
     \<lparr>GCLOUD_PROJECT = None, GOOGLE_APPLICATION_CREDENTIALS = None\<rparr> =
     Config \<lparr>cfg_projectId = Some (Str ''my-project''),
             cfg_keyFilename = Some (Str ''key.json''), cfg_credentials = None\<rparr> \<and>
   resolveDatastoreConfig
     \<lparr>projectId = Str ''my-project'', keyFilename = Str ''key.json'',
      credentials = Some \<lparr>client_email = Str ''svc@my-project.example'',
                           private_key = Str ''PRIVATE KEY''\<rparr>\<rparr>
     \<lparr>GCLOUD_PROJECT = None, GOOGLE_APPLICATION_CREDENTIALS = None\<rparr> =
     Config \<lparr>cfg_projectId = Some (Str ''my-project''),
             cfg_keyFilename = Some (Str ''key.json''), cfg_credentials = None\<rparr> \<and>
   datastore
     (datastoreAdapter
        (Some \<lparr>model = Some \<lparr>projectId = Undefined, keyFilename = Undefined, credentials = None\<rparr>,
               o_defaultKind = Str ''Tag'', o_allowKindOverwrite = Undefined,
               o_defaultNamespace = Undefined, o_allowNamespaceOverwrite = Undefined\<rparr>)
        \<lparr>GCLOUD_PROJECT = Some ''env-project'',
          GOOGLE_APPLICATION_CREDENTIALS = Some ''env-key.json''\<rparr>) =
     Some (Datastore (Some \<lparr>cfg_projectId = Some (Str ''env-project''),
                            cfg_keyFilename = Some (Str ''env-key.json''),
                            cfg_credentials = None\<rparr>)) \<and>
   cfg_credentials \<lparr>cfg_projectId = Some (Str ''my-project''),
                    cfg_keyFilename = Some (Str ''key.json''), cfg_credentials = None\<rparr> = None \<and>
   cfg_credentials \<lparr>cfg_projectId = Some (Str ''env-project''),
                    cfg_keyFilename = Some (Str ''env-key.json''),
                    cfg_credentials = None\<rparr> = None"
  using resolveConfig_never_credentials
    [of "\<lparr>projectId = Str ''my-project'', keyFilename = Str ''key.json'',
          credentials = Some \<lparr>client_email = Str ''svc@my-project.example'',
                               private_key = Str ''PRIVATE KEY''\<rparr>\<rparr>"
        "\<lparr>GCLOUD_PROJECT = None, GOOGLE_APPLICATION_CREDENTIALS = None\<rparr>"
        "\<lparr>cfg_projectId = Some (Str ''my-project''),
          cfg_keyFilename = Some (Str ''key.json''), cfg_credentials = None\<rparr>"
        "\<lparr>cfg_projectId = Some (Str ''my-project''),
          cfg_keyFilename = Some (Str ''key.json''), cfg_credentials = None\<rparr>"
        "Some \<lparr>model = Some \<lparr>projectId = Undefined, keyFilename = Undefined, credentials = None\<rparr>,
               o_defaultKind = Str ''Tag'', o_allowKindOverwrite = Undefined,
               o_defaultNamespace = Undefined, o_allowNamespaceOverwrite = Undefined\<rparr>"
        "\<lparr>GCLOUD_PROJECT = Some ''env-project'',
          GOOGLE_APPLICATION_CREDENTIALS = Some ''env-key.json''\<rparr>"
        "\<lparr>cfg_projectId = Some (Str ''env-project''),
          cfg_keyFilename = Some (Str ''env-key.json''), cfg_credentials = None\<rparr>"]
  by (simp add: resolveConfig_def resolveDatastoreConfig_def empty_config_def
        datastoreAdapter_def initial_adapter_def isValidKind_def Let_def)

section \<open>Properties of the key resolution\<close>

lemma datastoreAdapter_defaultKind:
  "defaultKind (datastoreAdapter opts e) =
     (case opts of None \<Rightarrow> Bool False
      | Some os \<Rightarrow> if isValidKind (o_defaultKind os) then o_defaultKind os else Bool False)"
proof (cases opts)
  case None
  then show ?thesis by (simp add: datastoreAdapter_None initial_adapter_def)
next
  case os: (Some os)
  show ?thesis
  proof (cases "model os")
    case None
    with os show ?thesis by (simp add: datastoreAdapter_def initial_adapter_def Let_def)
  next
    case (Some m)
    with os show ?thesis
      by (cases "resolveConfig m e") (simp_all add: datastoreAdapter_def initial_adapter_def Let_def)
  qed
qed

lemma datastoreAdapter_defaultNamespace:
  "defaultNamespace (datastoreAdapter opts e) =
     (case opts of None \<Rightarrow> Bool False
      | Some os \<Rightarrow> if js_typeof (o_defaultNamespace os) = ''string''
                   then o_defaultNamespace os else Bool False)"
proof (cases opts)
  case None
  then show ?thesis by (simp add: datastoreAdapter_None initial_adapter_def)
next
  case os: (Some os)
  show ?thesis
  proof (cases "model os")
    case None
    with os show ?thesis by (simp add: datastoreAdapter_def initial_adapter_def Let_def)
  next
    case (Some m)
    with os show ?thesis
      by (cases "resolveConfig m e") (simp_all add: datastoreAdapter_def initial_adapter_def Let_def)
  qed
qed

text \<open>The factory establishes the invariant, and \<^verbatim>\<open>setup\<close> keeps it.\<close>

lemma datastoreAdapter_invariant: "adapter_invariant (datastoreAdapter opts e)"
  by (simp add: adapter_invariant_def datastoreAdapter_defaultKind datastoreAdapter_defaultNamespace
        split: option.split)

lemma adapter_setup_invariant: "adapter_invariant (adapter_setup x y a) = adapter_invariant a"
  by (simp add: adapter_invariant_def adapter_setup_def)

lemma typeof_string: "js_typeof v = ''string'' \<longleftrightarrow> (\<exists>s. v = Str s)"
  by (cases v) auto

lemma typeof_undefined: "js_typeof v = ''undefined'' \<longleftrightarrow> v = Undefined"
  by (cases v) simp_all

lemma concat_args_two:
  "concat_args [k, i] =
     (case k of Arr r ks \<Rightarrow> ks | _ \<Rightarrow> [k]) @ (case i of Arr r xs \<Rightarrow> xs | _ \<Rightarrow> [i])"
  by (cases k; cases i) simp_all

lemma resolveNamespace_truthy:
  assumes "adapter_invariant a"
  shows "truthy (fst (resolveNamespace ps a)) \<longleftrightarrow>
           (\<exists>s. fst (resolveNamespace ps a) = Str s \<and> s \<noteq> [])"
  using assms
  by (auto simp: resolveNamespace_def adapter_invariant_def typeof_string)

text \<open>No resolver changes the adapter.\<close>

lemma resolveKind_snd: "snd (resolveKind ps a) = a"
  by (simp add: resolveKind_def)

lemma resolveNamespace_snd: "snd (resolveNamespace ps a) = a"
  by (simp add: resolveNamespace_def)

lemma resolvePreKey_snd: "snd (resolvePreKey id' kind' ps a) = a"
  by (simp add: resolvePreKey_def Let_def split_def resolveNamespace_snd)

lemma resolveErrorData_snd: "snd (resolveErrorData id' kind' ps a) = a"
  by (simp add: resolveErrorData_def Let_def split: sum.split)

text \<open>
  C4. For every \<^verbatim>\<open>params\<close> and every adapter, \<^verbatim>\<open>resolveKind\<close> returns
  \<^verbatim>\<open>params.kind\<close> when \<^verbatim>\<open>allowKindOverwrite\<close> is set and \<^verbatim>\<open>isValidKind\<close> accepts
  \<^verbatim>\<open>params.kind\<close>, and the default kind of the adapter in every other case. In
  particular, where \<^verbatim>\<open>allowKindOverwrite\<close> is false and \<^verbatim>\<open>params.kind\<close> is
  \<^verbatim>\<open>"Other"\<close>, the value is the default kind.
\<close>

theorem resolveKind_gate:
  "fst (resolveKind ps a) =
     (if allowKindOverwrite a \<and> isValidKind (kind ps) then kind ps else defaultKind a) \<and>
   fst (resolveKind (ps\<lparr>kind := Str ''Other''\<rparr>) (a\<lparr>allowKindOverwrite := False\<rparr>)) =
     defaultKind a"
  by (simp add: resolveKind_def)

text \<open>
  C6. For every identifier, kind and \<^verbatim>\<open>params\<close>, on an adapter that satisfies the
  invariant, the path of \<^verbatim>\<open>resolvePreKey\<close> is the kind followed by the identifier,
  in this order, where a kind that is an array contributes its elements and not
  itself (the same holds of the identifier). The value is the object
  \<^verbatim>\<open>{namespace, path}\<close> when the namespace that \<^verbatim>\<open>resolveNamespace\<close> gives is a
  non-empty string, and the path alone in every other case. With no namespace
  configured, \<^verbatim>\<open>resolvePreKey("5634472569470976", "Tag", {})\<close> is the path
  \<^verbatim>\<open>["Tag", "5634472569470976"]\<close>.
\<close>

theorem resolvePreKey_shape:
  assumes "adapter_invariant a"
  shows "fst (resolvePreKey id' kind' ps a) =
           (let ns = fst (resolveNamespace ps a);
                flat = (case kind' of Arr r ks \<Rightarrow> ks | _ \<Rightarrow> [kind']) @
                       (case id' of Arr r xs \<Rightarrow> xs | _ \<Rightarrow> [id'])
            in if (\<exists>s. ns = Str s \<and> s \<noteq> []) then NamespacePath ns flat else PathOnly flat) \<and>
         fst (resolvePreKey (Str ''5634472569470976'') (Str ''Tag'')
                \<lparr>kind = Undefined, namespace = Undefined, query = Undefined\<rparr>
                (a\<lparr>defaultNamespace := Bool False\<rparr>)) =
           PathOnly [Str ''Tag'', Str ''5634472569470976'']"
  using resolveNamespace_truthy [OF assms, of ps]
  by (simp add: resolvePreKey_def resolveNamespace_def Let_def split_def concat_args_two
        del: concat_args.simps)

theorem resolvePreKey_shape_witness:
  "adapter_invariant
     (datastoreAdapter
        (Some \<lparr>model = None, o_defaultKind = Str ''Company'', o_allowKindOverwrite = Undefined,
               o_defaultNamespace = Str ''NS1'', o_allowNamespaceOverwrite = Undefined\<rparr>)
        \<lparr>GCLOUD_PROJECT = None, GOOGLE_APPLICATION_CREDENTIALS = None\<rparr>) \<and>
   fst (resolvePreKey (DsInt ''123'') (Arr 0 [Str ''Company'', DsInt ''7'', Str ''Employee''])
          \<lparr>kind = Undefined, namespace = Str ''Elsewhere'', query = Undefined\<rparr>
          (datastoreAdapter
             (Some \<lparr>model = None, o_defaultKind = Str ''Company'', o_allowKindOverwrite = Undefined,
                    o_defaultNamespace = Str ''NS1'', o_allowNamespaceOverwrite = Undefined\<rparr>)
             \<lparr>GCLOUD_PROJECT = None, GOOGLE_APPLICATION_CREDENTIALS = None\<rparr>)) =
     NamespacePath (Str ''NS1'') [Str ''Company'', DsInt ''7'', Str ''Employee'', DsInt ''123'']"
  using resolvePreKey_shape
    [of "datastoreAdapter
           (Some \<lparr>model = None, o_defaultKind = Str ''Company'', o_allowKindOverwrite = Undefined,
                  o_defaultNamespace = Str ''NS1'', o_allowNamespaceOverwrite = Undefined\<rparr>)
           \<lparr>GCLOUD_PROJECT = None, GOOGLE_APPLICATION_CREDENTIALS = None\<rparr>"
        "DsInt ''123''" "Arr 0 [Str ''Company'', DsInt ''7'', Str ''Employee'']"
        "\<lparr>kind = Undefined, namespace = Str ''Elsewhere'', query = Undefined\<rparr>"]
  by (simp add: adapter_invariant_def datastoreAdapter_def initial_adapter_def isValidKind_def
        resolveNamespace_def Let_def)

text \<open>
  C8. On an adapter whose \<^verbatim>\<open>allowKindOverwrite\<close> and \<^verbatim>\<open>allowNamespaceOverwrite\<close>
  are both false, \<^verbatim>\<open>resolveKind\<close>, \<^verbatim>\<open>resolveNamespace\<close> and \<^verbatim>\<open>resolvePreKey\<close> give
  the same result for any two \<^verbatim>\<open>params\<close> (the identifier and the kind being the
  same), and so does the key descriptor that \<^verbatim>\<open>get\<close> builds from the resolved
  kind: the parameters of a request have no influence on the key addressed.
\<close>

theorem params_without_influence:
  assumes "\<not> allowKindOverwrite a" and "\<not> allowNamespaceOverwrite a"
  shows "resolveKind p1 a = resolveKind p2 a \<and>
         resolveNamespace p1 a = resolveNamespace p2 a \<and>
         resolvePreKey id' kind' p1 a = resolvePreKey id' kind' p2 a \<and>
         resolvePreKey id' (fst (resolveKind p1 a)) p1 a =
           resolvePreKey id' (fst (resolveKind p2 a)) p2 a"
  using assms by (simp add: resolveKind_def resolveNamespace_def resolvePreKey_def)

theorem params_without_influence_witness:
  "\<not> allowKindOverwrite initial_adapter \<and> \<not> allowNamespaceOverwrite initial_adapter \<and>
   resolveKind \<lparr>kind = Str ''Other'', namespace = Str ''Elsewhere'', query = Undefined\<rparr>
       initial_adapter =
     resolveKind \<lparr>kind = Undefined, namespace = Undefined, query = Undefined\<rparr> initial_adapter \<and>
   resolveNamespace \<lparr>kind = Str ''Other'', namespace = Str ''Elsewhere'', query = Undefined\<rparr>
       initial_adapter =
     resolveNamespace \<lparr>kind = Undefined, namespace = Undefined, query = Undefined\<rparr> initial_adapter \<and>
   resolvePreKey (DsInt ''123'') (Str ''Tag'')
       \<lparr>kind = Str ''Other'', namespace = Str ''Elsewhere'', query = Undefined\<rparr> initial_adapter =
     resolvePreKey (DsInt ''123'') (Str ''Tag'')
       \<lparr>kind = Undefined, namespace = Undefined, query = Undefined\<rparr> initial_adapter"
  using params_without_influence
    [of initial_adapter "\<lparr>kind = Str ''Other'', namespace = Str ''Elsewhere'', query = Undefined\<rparr>"
        "\<lparr>kind = Undefined, namespace = Undefined, query = Undefined\<rparr>" "DsInt ''123''" "Str ''Tag''"]
  by (simp add: initial_adapter_def)

text \<open>
  C10. \<^verbatim>\<open>resolveKind\<close>, \<^verbatim>\<open>resolveNamespace\<close> and \<^verbatim>\<open>resolvePreKey\<close> leave the
  adapter as they found it, and a second call with the same arguments, on the
  adapter that the first call left, gives the same value.
\<close>

theorem resolvers_pure:
  "snd (resolveKind ps a) = a \<and>
   resolveKind ps (snd (resolveKind ps a)) = resolveKind ps a \<and>
   snd (resolveNamespace ps a) = a \<and>
   resolveNamespace ps (snd (resolveNamespace ps a)) = resolveNamespace ps a \<and>
   snd (resolvePreKey id' kind' ps a) = a \<and>
   resolvePreKey id' kind' ps (snd (resolvePreKey id' kind' ps a)) =
     resolvePreKey id' kind' ps a"
  by (simp add: resolveKind_snd resolveNamespace_snd resolvePreKey_snd)

section \<open>Properties of the identifier and of the retrieval\<close>

lemma digit_not_white_space: "is_digit c \<Longrightarrow> \<not> is_white_space c"
  by (auto simp: is_digit_def is_white_space_def)

lemma digit_not_sign: "is_digit c \<Longrightarrow> c \<noteq> CHR ''+'' \<and> c \<noteq> CHR ''-''"
  by (auto simp: is_digit_def)

lemma DecimalDigits_trim:
  assumes "DecimalDigits s"
  shows "str_trim s = s"
proof -
  from assms have ne: "s \<noteq> []" and all: "list_all is_digit s"
    by (simp_all add: DecimalDigits_def)
  from ne all have "is_digit (hd s)" and "is_digit (last s)"
    by (simp_all add: list_all_iff)
  then have h: "\<not> is_white_space (hd s)" and l: "\<not> is_white_space (last s)"
    by (simp_all add: digit_not_white_space)
  from ne h have 1: "dropWhile is_white_space s = s"
    by (cases s) simp_all
  from ne l have 2: "dropWhile is_white_space (rev s) = rev s"
    by (cases "rev s") (simp_all add: hd_rev)
  show ?thesis by (simp add: str_trim_def 1 2)
qed

lemma DecimalDigits_unsigned:
  assumes "DecimalDigits s"
  shows "StrUnsignedDecimalLiteral s"
proof -
  from assms have ne: "s \<noteq> []" and all: "list_all is_digit s"
    by (simp_all add: DecimalDigits_def)
  from all have tw: "takeWhile is_digit s = s" and dw: "dropWhile is_digit s = []"
    by (simp_all add: list_all_iff)
  show ?thesis
    unfolding StrUnsignedDecimalLiteral_def Let_def tw dw using ne by simp
qed

text \<open>A string of decimal digits, one at least, converts to a number, and
  \<^verbatim>\<open>resolveId\<close> accepts it.\<close>

lemma DecimalDigits_numeric:
  assumes "DecimalDigits s"
  shows "\<not> isNaN s"
proof -
  from assms obtain c r where s: "s = c # r" and c: "is_digit c"
    by (cases s) (auto simp: DecimalDigits_def)
  from c s DecimalDigits_unsigned [OF assms] have "StrDecimalLiteral s"
    using digit_not_sign [of c] by (simp add: StrDecimalLiteral_def)
  then show ?thesis
    by (simp add: isNaN_def StringNumericLiteral_def DecimalDigits_trim [OF assms])
qed

lemma resolveId_DecimalDigits:
  assumes "DecimalDigits s"
  shows "resolveId s = DsInt s"
  using DecimalDigits_numeric [OF assms] by (simp add: resolveId_def)

lemma isNaN_abc: "isNaN ''abc''"
  by (simp add: isNaN_def StringNumericLiteral_def str_trim_def is_white_space_def
        StrDecimalLiteral_def StrUnsignedDecimalLiteral_def NonDecimalIntegerLiteral_def is_digit_def)

lemma resolveId_abc:
  "resolveId ''abc'' =
     Str ''Invalid id format, should be a number e.g. 5634472569470976, provided: abc''"
  using isNaN_abc by (simp add: resolveId_def)

lemma not_isNaN_123: "\<not> isNaN ''123''"
  by (rule DecimalDigits_numeric) (simp add: DecimalDigits_def is_digit_def)

lemma not_isNaN_fraction: "\<not> isNaN ''1.5''"
  by (simp add: isNaN_def StringNumericLiteral_def str_trim_def is_white_space_def
        StrDecimalLiteral_def StrUnsignedDecimalLiteral_def ExponentPart_opt_def is_digit_def)

lemma not_isNaN_empty: "\<not> isNaN []"
  by (simp add: isNaN_def StringNumericLiteral_def str_trim_def)

lemma not_isNaN_padded: "\<not> isNaN '' 12 ''"
  by (simp add: isNaN_def StringNumericLiteral_def str_trim_def is_white_space_def
        StrDecimalLiteral_def StrUnsignedDecimalLiteral_def is_digit_def)

lemma not_isNaN_minus_5: "\<not> isNaN ''-5''"
  by (simp add: isNaN_def StringNumericLiteral_def str_trim_def is_white_space_def
        StrDecimalLiteral_def StrUnsignedDecimalLiteral_def is_digit_def)

text \<open>What \<^verbatim>\<open>resolveErrorData\<close> returns, and when it raises.\<close>

lemma resolveErrorData_fst:
  "fst (resolveErrorData id' kind' ps a) =
     (if query ps = Null \<or>
         (\<exists>r props. query ps = Obj r props \<and> map_of props ''hasOwnProperty'' \<noteq> None)
      then Inl TypeError
      else Inr \<lparr>err_id = id',
                err_kind = (if strict_eq kind' (defaultKind a) then None else Some kind'),
                err_query = (case query ps of
                               Obj r props \<Rightarrow>
                                 if map_of props ''undefined'' \<noteq> None then Some (query ps) else None
                             | _ \<Rightarrow> None)\<rparr>)"
  by (cases "query ps") (simp_all add: resolveErrorData_def Let_def)


text \<open>\<^verbatim>\<open>get\<close> on an identifier that converts to a number, where
  \<^verbatim>\<open>resolveErrorData\<close> returns: the promise is still pending when the store is
  asked, and the reply of the store settles it.\<close>

lemma get_valid_id:
  assumes "\<not> isNaN id'"
    and "fst (resolveErrorData (Str id') (fst (resolveKind ps a)) ps a) = Inr errorData"
  shows "get ds_get id' ps a =
    (case ds_get (DsKey (fst (resolvePreKey (DsInt id') (fst (resolveKind ps a)) ps a))) of
       StoreResolved result \<Rightarrow>
         if length result > 1 \<or> (length result = 1 \<and> result ! 0 \<noteq> Undefined)
         then (Some (Resolved result), a)
         else (Some (Rejected (ServiceError NotFound
                 (Str ''Requested entity does not exist.'') errorData)), a)
     | StoreRejected err \<Rightarrow>
         (Some (Rejected (ServiceError GeneralError
            (Str ''Datastore returned error while requesting entity.'') errorData)), a)
     | StorePending \<Rightarrow> (None, a))"
proof -
  obtain r where r: "resolveErrorData (Str id') (fst (resolveKind ps a)) ps a = (r, a)"
    using resolveErrorData_snd [of "Str id'" "fst (resolveKind ps a)" ps a]
    by (cases "resolveErrorData (Str id') (fst (resolveKind ps a)) ps a") simp
  with assms(2) have r': "r = Inr errorData" by simp
  obtain k where k: "resolveKind ps a = (k, a)"
    using resolveKind_snd [of ps a] by (cases "resolveKind ps a") simp
  obtain pk where pk: "resolvePreKey (DsInt id') k ps a = (pk, a)"
    using resolvePreKey_snd [of "DsInt id'" k ps a]
    by (cases "resolvePreKey (DsInt id') k ps a") simp
  from r k have rk: "resolveErrorData (Str id') k ps a = (Inr errorData, a)"
    by (simp add: r')
  show ?thesis
    using assms(1)
    by (simp add: get_def resolveId_def Let_def k pk rk promise_resolve_def promise_reject_def
          typeof_undefined split: store_reply.split)
qed

text \<open>
  C3. The claim: \<^verbatim>\<open>resolveId\<close> returns the error exactly when the identifier is
  not a string of decimal digits. The code tests \<^verbatim>\<open>!isNaN(id)\<close> in the place of
  the format that its comments name ("only numbers", "convert to special long
  integer"), and so it accepts \<^verbatim>\<open>"1.5"\<close>, the empty string, \<^verbatim>\<open>" 12 "\<close> and
  \<^verbatim>\<open>"-5"\<close>, none of which is a string of decimal digits: for each,
  \<^verbatim>\<open>resolveId\<close> returns the store's integer of it, and no error.
\<close>

theorem resolveId_accepts_non_digits:
  "\<not> DecimalDigits ''1.5'' \<and> resolveId ''1.5'' = DsInt ''1.5'' \<and>
   \<not> DecimalDigits [] \<and> resolveId [] = DsInt [] \<and>
   \<not> DecimalDigits '' 12 '' \<and> resolveId '' 12 '' = DsInt '' 12 '' \<and>
   \<not> DecimalDigits ''-5'' \<and> resolveId ''-5'' = DsInt ''-5''"
  using not_isNaN_fraction not_isNaN_empty not_isNaN_padded not_isNaN_minus_5
  by (simp add: resolveId_def DecimalDigits_def is_digit_def)

text \<open>
  C5. The claim: the data of the error of a failed \<^verbatim>\<open>get\<close> holds the identifier
  always, the kind exactly when it is not the default kind of the adapter, and
  the query exactly when \<^verbatim>\<open>params.query\<close> is a non-empty mapping. The code holds
  the first two whenever \<^verbatim>\<open>resolveErrorData\<close> returns; it keeps the query exactly
  when the query is an object with a property named \<^verbatim>\<open>undefined\<close> (the call
  \<^verbatim>\<open>hasOwnProperty()\<close> of line 328 names no property), and it raises when the
  query is \<^verbatim>\<open>null\<close> or has a property of its own named \<^verbatim>\<open>hasOwnProperty\<close>. So
  the query \<^verbatim>\<open>{name: "Bob"}\<close> is left out, by \<^verbatim>\<open>resolveErrorData\<close> and in the error
  that \<^verbatim>\<open>get\<close> rejects with.
\<close>

theorem resolveErrorData_query_left_out:
  "fst (resolveErrorData id' kind' ps a) =
     (if query ps = Null \<or>
         (\<exists>r props. query ps = Obj r props \<and> map_of props ''hasOwnProperty'' \<noteq> None)
      then Inl TypeError
      else Inr \<lparr>err_id = id',
                err_kind = (if strict_eq kind' (defaultKind a) then None else Some kind'),
                err_query = (case query ps of
                               Obj r props \<Rightarrow>
                                 if map_of props ''undefined'' \<noteq> None then Some (query ps) else None
                             | _ \<Rightarrow> None)\<rparr>) \<and>
   fst (resolveErrorData (Str ''123'') (Bool False)
          \<lparr>kind = Undefined, namespace = Undefined, query = Obj 0 [(''name'', Str ''Bob'')]\<rparr>
          initial_adapter) =
     Inr \<lparr>err_id = Str ''123'', err_kind = None, err_query = None\<rparr> \<and>
   fst (get (store_always (StoreResolved [])) ''123''
          \<lparr>kind = Undefined, namespace = Undefined, query = Obj 0 [(''name'', Str ''Bob'')]\<rparr>
          initial_adapter) =
     Some (Rejected (ServiceError NotFound (Str ''Requested entity does not exist.'')
             \<lparr>err_id = Str ''123'', err_kind = None, err_query = None\<rparr>))"
proof -
  have e: "fst (resolveErrorData (Str ''123'') (Bool False)
          \<lparr>kind = Undefined, namespace = Undefined, query = Obj 0 [(''name'', Str ''Bob'')]\<rparr>
          initial_adapter) =
     Inr \<lparr>err_id = Str ''123'', err_kind = None, err_query = None\<rparr>"
    by (simp add: resolveErrorData_fst initial_adapter_def)
  have k: "fst (resolveKind
             \<lparr>kind = Undefined, namespace = Undefined, query = Obj 0 [(''name'', Str ''Bob'')]\<rparr>
             initial_adapter) = Bool False"
    by (simp add: resolveKind_def initial_adapter_def)
  from e k show ?thesis
    by (simp add: resolveErrorData_fst [of id' kind' ps a]
          get_valid_id [OF not_isNaN_123, where errorData =
            "\<lparr>err_id = Str ''123'', err_kind = None, err_query = None\<rparr>"]
          store_always_def)
qed




end
